theory Spec2Isabelle
  imports Complex_Main "HOL-Library.Word"
begin

section \<open>JavaScript strings\<close>

text \<open>
  A JavaScript string is a sequence of UTF-16 code units, and \<open>s.length\<close> counts code
  units; it is modelled as a list of naturals. ASCII literals of the source are written
  \<open>js ''...''\<close>. The Korean literals of the server code are given by their code units,
  with an English gloss in the comment beside them. The character class written with the
  first and the last Hangul syllable in the source is the code-unit range
  \<open>0xAC00 .. 0xD7A3\<close>.
\<close>

type_synonym jsstring = "nat list"

definition js :: "string \<Rightarrow> jsstring" where
  "js s = map of_char s"

text \<open>Numbers of the source are IEEE doubles; they are modelled as exact reals.\<close>

section \<open>CompressionPlanner: \<open>calculateCompressionSettings\<close>\<close>

record compressionSettings =
  quality :: int
  compressionRatio :: real

text \<open>
  \<open>targetSizeKB\<close> is an optional field of the request body: \<open>None\<close> is
  \<open>undefined\<close>. The guard \<open>targetSizeKB && currentSizeKB\<close> is JavaScript truthiness:
  both present and non-zero.
\<close>

definition ratioQuality :: "real \<Rightarrow> int" where
  "ratioQuality r =
     (if r > 9/10 then 95
      else if r > 7/10 then 85
      else if r > 5/10 then 70
      else if r > 3/10 then 55
      else 40)"

definition calculateCompressionSettings ::
  "string \<Rightarrow> real option \<Rightarrow> real \<Rightarrow> compressionSettings" where
  "calculateCompressionSettings compressionType targetSizeKB currentSizeKB =
     (let (q, r) =
        (if compressionType = ''low'' then (95, 9/10)
         else if compressionType = ''medium'' then (80, 7/10)
         else if compressionType = ''high'' then (60, 5/10)
         else if compressionType = ''custom'' then
           (case targetSizeKB of
              None \<Rightarrow> (80, 1)
            | Some target \<Rightarrow>
                if target \<noteq> 0 \<and> currentSizeKB \<noteq> 0
                then (ratioQuality (target / currentSizeKB), target / currentSizeKB)
                else (80, 1))
         else (80, 7/10))
      in \<lparr>quality = max 10 (min 100 q), compressionRatio = r\<rparr>)"

text \<open>
  The part of the \<open>/convert\<close> handler that computes the plan. The body's
  \<open>compression\<close> defaults to \<open>'medium'\<close>; \<open>compressionRatio\<close> is read from the body
  and not used again.
\<close>

record fileInfo =
  filename :: jsstring
  originalname :: jsstring
  size :: nat

record convertBody =
  files :: "fileInfo list"
  compression :: "string option"
  targetSizeKB :: "real option"
  bodyCompressionRatio :: "real option"

definition totalOriginalSize :: "fileInfo list \<Rightarrow> nat" where
  "totalOriginalSize fs = foldl (\<lambda>acc f. acc + size f) 0 fs"

definition compressionPlan :: "convertBody \<Rightarrow> compressionSettings" where
  "compressionPlan body =
     calculateCompressionSettings
       (case compression body of None \<Rightarrow> ''medium'' | Some c \<Rightarrow> c)
       (targetSizeKB body)
       (real (totalOriginalSize (files body)) / 1024)"

section \<open>Deletion endpoint: \<open>app.delete('/delete/:filename')\<close>\<close>

text \<open>
  The uploads directory is the set of stored names. \<open>unlinkSync\<close> is the file system's:
  it either removes the file or raises with a message (\<open>Some msg\<close>), which the handler
  turns into a 500 response.
\<close>

datatype response =
    Json200 jsstring
  | JsonError nat jsstring

definition deleteFile ::
  "(jsstring \<Rightarrow> jsstring option) \<Rightarrow> jsstring set \<Rightarrow> jsstring \<Rightarrow> response \<times> jsstring set" where
  "deleteFile unlinkSync uploads name =
     (if name \<in> uploads then
        (case unlinkSync name of
           None \<Rightarrow> (Json200 (js ''File deleted successfully''), uploads - {name})
         | Some msg \<Rightarrow> (JsonError 500 msg, uploads))
      else (JsonError 404 (js ''File not found''), uploads))"

section \<open>TextLayoutEngine: the text preparation and line wrapping of \<open>createTextImage\<close>\<close>

text \<open>
  \<open>isWhiteSpace\<close> is the class \<open>\s\<close> of JavaScript regular expressions, which is
  also the set that \<open>trim\<close> strips.
\<close>

definition isWhiteSpace :: "nat \<Rightarrow> bool" where
  "isWhiteSpace c =
     (c = 9 \<or> c = 10 \<or> c = 11 \<or> c = 12 \<or> c = 13 \<or> c = 32 \<or> c = 160 \<or> c = 0x1680
      \<or> (0x2000 \<le> c \<and> c \<le> 0x200A) \<or> c = 0x2028 \<or> c = 0x2029 \<or> c = 0x202F
      \<or> c = 0x205F \<or> c = 0x3000 \<or> c = 0xFEFF)"

definition trim :: "jsstring \<Rightarrow> jsstring" where
  "trim s = rev (dropWhile isWhiteSpace (rev (dropWhile isWhiteSpace s)))"

text \<open>
  \<open>s.split(/\s+/)\<close>: the separators are the maximal runs of white space; a leading or a
  trailing separator leaves an empty first or last token, and the empty string splits
  into one empty token.
\<close>

function splitWs :: "jsstring \<Rightarrow> jsstring \<Rightarrow> jsstring list" where
  "splitWs cur [] = [cur]"
| "splitWs cur (c # cs) =
     (if isWhiteSpace c then cur # splitWs [] (dropWhile isWhiteSpace cs)
      else splitWs (cur @ [c]) cs)"
  by pat_completeness auto
termination
  by (relation "measure (\<lambda>(cur, s). length s)") (auto simp: length_dropWhile_le less_Suc_eq_le)

text \<open>\<open>s.replace(/c/g, r)\<close> for a single character \<open>c\<close>.\<close>

definition replaceAll :: "nat \<Rightarrow> jsstring \<Rightarrow> jsstring \<Rightarrow> jsstring" where
  "replaceAll c r s = concat (map (\<lambda>x. if x = c then r else [x]) s)"

text \<open>The class \<open>[\x00-\x08\x0B\x0C\x0E-\x1F\x7F]\<close> removed from the text.\<close>

definition isStrippedControl :: "nat \<Rightarrow> bool" where
  "isStrippedControl c = (c \<le> 8 \<or> c = 11 \<or> c = 12 \<or> (14 \<le> c \<and> c \<le> 31) \<or> c = 127)"

text \<open>
  The two Korean literals: "the content is empty." and, after two newlines,
  "... (more content was cut off)".
\<close>

definition emptyContentText :: jsstring where
  "emptyContentText = [0xB0B4, 0xC6A9, 0xC774] @ js '' '' @ [0xBE44, 0xC5B4] @ js '' '' @ [0xC788, 0xC2B5, 0xB2C8, 0xB2E4] @ js ''.''"

definition moreContentText :: jsstring where
  "moreContentText = [10, 10] @ js ''... ('' @ [0xB354] @ js '' '' @ [0xB9CE, 0xC740] @ js '' '' @ [0xB0B4, 0xC6A9, 0xC774] @ js '' '' @ [0xC798, 0xB838, 0xC2B5, 0xB2C8, 0xB2E4] @ js '')''"

text \<open>The guard \<open>!text || text.trim().length === 0\<close> replaces a blank text.\<close>

definition effectiveText :: "jsstring \<Rightarrow> jsstring" where
  "effectiveText text = (if text = [] \<or> length (trim text) = 0 then emptyContentText else text)"

definition cleanText :: "jsstring \<Rightarrow> jsstring" where
  "cleanText text =
     replaceAll 39 (js ''&#39;'')
       (replaceAll 34 (js ''&quot;'')
         (replaceAll 62 (js ''&gt;'')
           (replaceAll 60 (js ''&lt;'')
             (replaceAll 38 (js ''&amp;'')
               (filter (\<lambda>c. \<not> isStrippedControl c) (take 3000 text))))))"

text \<open>
  The wrapping loop keeps the pair of the finished \<open>lines\<close> and the \<open>currentLine\<close>;
  a non-empty string is truthy.
\<close>

definition maxLineLength :: nat where "maxLineLength = 70"

definition wrapStep :: "jsstring list \<times> jsstring \<Rightarrow> jsstring \<Rightarrow> jsstring list \<times> jsstring" where
  "wrapStep st word =
     (case st of (lines, currentLine) \<Rightarrow>
        if length (currentLine @ js '' '' @ word) \<le> maxLineLength
        then (lines, if currentLine \<noteq> [] then currentLine @ js '' '' @ word else word)
        else if currentLine \<noteq> [] then (lines @ [currentLine], word)
        else (lines @ [take maxLineLength word], drop maxLineLength word))"

definition wrapWords :: "jsstring list \<Rightarrow> jsstring list" where
  "wrapWords words =
     (case foldl wrapStep ([], []) words of (lines, currentLine) \<Rightarrow>
        if currentLine \<noteq> [] then lines @ [currentLine] else lines)"

text \<open>
  What the page shows of the text: the first 40 lines, and the marker drawn below them
  when there were more.
\<close>

record layoutPage =
  displayLines :: "jsstring list"
  moreLinesText :: jsstring

definition textLayout :: "jsstring \<Rightarrow> layoutPage" where
  "textLayout text =
     (let lines = wrapWords (splitWs [] (cleanText (effectiveText text)))
      in \<lparr>displayLines = take 40 lines,
          moreLinesText = (if length lines > 40 then moreContentText else [])\<rparr>)"

section \<open>Raised exceptions and bytes\<close>

text \<open>
  A call that may raise returns a sum: \<open>Inl msg\<close> is a raised \<open>Error\<close> with its
  message, \<open>Inr v\<close> the value returned. A \<open>Buffer\<close> is a list of bytes.
\<close>

type_synonym 'a result = "jsstring + 'a"

type_synonym buffer = "8 word list"

section \<open>EncodingRecovery: \<open>detectAndConvertEncoding\<close>\<close>

text \<open>
  The libraries the function calls are parameters: \<open>jschardet.detect(buffer).encoding\<close>
  (\<open>None\<close> is \<open>null\<close>), \<open>iconv.encodingExists\<close>, \<open>iconv.decode\<close> and
  \<open>buffer.toString('utf8')\<close>. The first three may raise; Node's \<open>toString('utf8')\<close>
  replaces what it cannot decode and returns a string for every buffer.
\<close>

record codecs =
  detectEncoding :: "buffer \<Rightarrow> string option result"
  encodingExists :: "string \<Rightarrow> bool result"
  iconvDecode :: "buffer \<Rightarrow> string \<Rightarrow> jsstring result"
  toStringUtf8 :: "buffer \<Rightarrow> jsstring"

definition isHangul :: "nat \<Rightarrow> bool" where
  "isHangul c = (0xAC00 \<le> c \<and> c \<le> 0xD7A3)"

definition isAsciiLetter :: "nat \<Rightarrow> bool" where
  "isAsciiLetter c = ((97 \<le> c \<and> c \<le> 122) \<or> (65 \<le> c \<and> c \<le> 90))"

definition isAsciiDigit :: "nat \<Rightarrow> bool" where
  "isAsciiDigit c = (48 \<le> c \<and> c \<le> 57)"

text \<open>
  The validation of a decoded text: it is not empty and holds a Hangul syllable or an
  ASCII letter or digit.
\<close>

definition looksReasonable :: "jsstring \<Rightarrow> bool" where
  "looksReasonable decoded =
     (decoded \<noteq> [] \<and>
      (list_ex isHangul decoded \<or> list_ex (\<lambda>c. isAsciiLetter c \<or> isAsciiDigit c) decoded))"

text \<open>
  One turn of the loop over \<open>encodingsToTry\<close>: \<open>Some decoded\<close> is the \<open>return\<close> inside
  the loop, \<open>None\<close> goes on to the next candidate (also after the inner \<open>catch\<close>). A
  \<open>null\<close> or empty name is falsy.
\<close>

definition tryEncoding :: "codecs \<Rightarrow> buffer \<Rightarrow> string option \<Rightarrow> jsstring option" where
  "tryEncoding lib buf enc =
     (case enc of
        None \<Rightarrow> None
      | Some e \<Rightarrow>
          if e = [] then None
          else (case encodingExists lib e of
                  Inl err \<Rightarrow> None
                | Inr False \<Rightarrow> None
                | Inr True \<Rightarrow>
                    (case iconvDecode lib buf e of
                       Inl err \<Rightarrow> None
                     | Inr decoded \<Rightarrow> if looksReasonable decoded then Some decoded else None)))"

fun tryEncodings :: "codecs \<Rightarrow> buffer \<Rightarrow> string option list \<Rightarrow> jsstring option" where
  "tryEncodings lib buf [] = None"
| "tryEncodings lib buf (enc # rest) =
     (case tryEncoding lib buf enc of
        Some decoded \<Rightarrow> Some decoded
      | None \<Rightarrow> tryEncodings lib buf rest)"

definition encodingsToTry :: "string option \<Rightarrow> string option list" where
  "encodingsToTry detected =
     [if detected = Some ''windows-1252'' \<or> detected = Some ''ISO-8859-1''
      then Some ''euc-kr'' else detected,
      Some ''utf8'', Some ''euc-kr'', Some ''cp949'', Some ''iso-2022-kr'']"

definition detectAndConvertEncoding :: "codecs \<Rightarrow> buffer \<Rightarrow> jsstring result" where
  "detectAndConvertEncoding lib buf =
     (case detectEncoding lib buf of
        Inl err \<Rightarrow> Inr (toStringUtf8 lib buf)
      | Inr detected \<Rightarrow>
          (case tryEncodings lib buf (encodingsToTry detected) of
             Some decoded \<Rightarrow> Inr decoded
           | None \<Rightarrow> Inr (toStringUtf8 lib buf)))"


section \<open>Legacy binary salvage: the \<open>.hwp\<close>/\<open>.hwpx\<close> branch of \<open>convertToImage\<close>\<close>

text \<open>
  \<open>s.match(/[class]+/g)\<close>: the matches are the maximal non-empty runs of characters of
  the class. With the quantifier \<open>{4,}\<close> the matches are the maximal runs of at least four
  characters.
\<close>

function runs :: "(nat \<Rightarrow> bool) \<Rightarrow> jsstring \<Rightarrow> jsstring list" where
  "runs P [] = []"
| "runs P (c # cs) =
     (if P c then (c # takeWhile P cs) # runs P (dropWhile P cs) else runs P cs)"
  by pat_completeness auto
termination
  by (relation "measure (\<lambda>(P, s). length s)") (auto simp: length_dropWhile_le less_Suc_eq_le)

text \<open>
  \<open>s.match(/[H][H\s]{2,}/g)\<close> with \<open>H\<close> the Hangul syllables: a match starts at a
  syllable that is followed by at least two syllables or white-space characters, and takes
  all that follow.
\<close>

definition isHangulOrSpace :: "nat \<Rightarrow> bool" where
  "isHangulOrSpace c = (isHangul c \<or> isWhiteSpace c)"

function hangulPhrases :: "jsstring \<Rightarrow> jsstring list" where
  "hangulPhrases [] = []"
| "hangulPhrases (c # cs) =
     (if isHangul c \<and> 2 \<le> length (takeWhile isHangulOrSpace cs)
      then (c # takeWhile isHangulOrSpace cs) # hangulPhrases (dropWhile isHangulOrSpace cs)
      else hangulPhrases cs)"
  by pat_completeness auto
termination
  by (relation "measure length") (auto simp: length_dropWhile_le less_Suc_eq_le)

text \<open>\<open>Array.prototype.join\<close>.\<close>

fun joinWith :: "jsstring \<Rightarrow> jsstring list \<Rightarrow> jsstring" where
  "joinWith sep [] = []"
| "joinWith sep [x] = x"
| "joinWith sep (x # y # ys) = x @ sep @ joinWith sep (y # ys)"

text \<open>
  Method 1: the buffer decoded under each of \<open>utf8\<close>, \<open>euc-kr\<close>, \<open>cp949\<close>, \<open>utf16le\<close>;
  a decoding that raises is skipped.
\<close>

definition decodeUnder :: "codecs \<Rightarrow> buffer \<Rightarrow> string \<Rightarrow> jsstring result" where
  "decodeUnder lib buf encoding =
     (if encoding = ''utf8'' then Inr (toStringUtf8 lib buf) else iconvDecode lib buf encoding)"

definition phraseText :: "jsstring \<Rightarrow> jsstring" where
  "phraseText text =
     (if hangulPhrases text \<noteq> [] then joinWith (js '' '') (hangulPhrases text) @ [10] else [])"

fun decodedPhrases :: "codecs \<Rightarrow> buffer \<Rightarrow> string list \<Rightarrow> jsstring \<Rightarrow> jsstring" where
  "decodedPhrases lib buf [] extractedText = extractedText"
| "decodedPhrases lib buf (encoding # rest) extractedText =
     decodedPhrases lib buf rest
       (case decodeUnder lib buf encoding of
          Inl err \<Rightarrow> extractedText
        | Inr text \<Rightarrow> extractedText @ phraseText text)"

text \<open>
  Method 2: \<open>buffer.toString('binary')\<close> has one character per byte, with the byte's
  value. The first pattern is the class of the code units \<open>0xAC00 .. 0xD7AF\<close> and white space, one or more times, the second the class of ASCII
  letters and digits, white space, \<open>. , ! ?\<close> and the Hangul syllables, four or more times.
\<close>

definition binaryText :: "buffer \<Rightarrow> jsstring" where
  "binaryText buf = map unat buf"

definition isKoreanPatternChar :: "nat \<Rightarrow> bool" where
  "isKoreanPatternChar c = ((0xAC00 \<le> c \<and> c \<le> 0xD7AF) \<or> isWhiteSpace c)"

definition isAsciiPatternChar :: "nat \<Rightarrow> bool" where
  "isAsciiPatternChar c =
     (isAsciiLetter c \<or> isAsciiDigit c \<or> isWhiteSpace c
      \<or> c = 46 \<or> c = 44 \<or> c = 33 \<or> c = 63 \<or> isHangul c)"

definition koreanMatches :: "buffer \<Rightarrow> jsstring list" where
  "koreanMatches buf = runs isKoreanPatternChar (binaryText buf)"

definition koreanKept :: "buffer \<Rightarrow> jsstring list" where
  "koreanKept buf =
     filter (\<lambda>m. length m > 3 \<and> length (trim m) > 0) (koreanMatches buf)"

definition asciiMatches :: "buffer \<Rightarrow> jsstring list" where
  "asciiMatches buf = filter (\<lambda>m. 4 \<le> length m) (runs isAsciiPatternChar (binaryText buf))"

definition asciiKept :: "buffer \<Rightarrow> jsstring list" where
  "asciiKept buf =
     take 10 (filter (\<lambda>m. length m > 4 \<and> length (trim m) > 0
                          \<and> list_ex (\<lambda>c. isHangul c \<or> isAsciiLetter c) m)
                (asciiMatches buf))"

text \<open>\<open>match\<close> returns \<open>null\<close> when nothing matches, and the \<open>if\<close> is then skipped.\<close>

definition binaryPatterns :: "buffer \<Rightarrow> jsstring" where
  "binaryPatterns buf =
     (if koreanMatches buf \<noteq> [] then joinWith (js '' '') (koreanKept buf) @ [10] else [])
     @ (if asciiMatches buf \<noteq> [] then joinWith (js '' '') (asciiKept buf) @ [10] else [])"

text \<open>
  The clean-up: every run of white space becomes one space, the characters
  \<open>[\x00-\x1F\x7F-\x9F]\<close> are removed, and the result is trimmed.
\<close>

function collapseWs :: "jsstring \<Rightarrow> jsstring" where
  "collapseWs [] = []"
| "collapseWs (c # cs) =
     (if isWhiteSpace c then 32 # collapseWs (dropWhile isWhiteSpace cs)
      else c # collapseWs cs)"
  by pat_completeness auto
termination
  by (relation "measure length") (auto simp: length_dropWhile_le less_Suc_eq_le)

definition isC0C1Control :: "nat \<Rightarrow> bool" where
  "isC0C1Control c = (c \<le> 0x1F \<or> (0x7F \<le> c \<and> c \<le> 0x9F))"

definition salvage :: "codecs \<Rightarrow> buffer \<Rightarrow> jsstring" where
  "salvage lib buf =
     trim (filter (\<lambda>c. \<not> isC0C1Control c)
       (collapseWs
          (decodedPhrases lib buf [''utf8'', ''euc-kr'', ''cp949'', ''utf16le''] []
           @ binaryPatterns buf)))"

text \<open>A number in a template literal: its decimal digits.\<close>

function decimal :: "nat \<Rightarrow> jsstring" where
  "decimal n = (if n < 10 then [48 + n] else decimal (n div 10) @ [48 + n mod 10])"
  by pat_completeness auto
termination
  by (relation "measure id") auto

declare decimal.simps [simp del]

text \<open>\<open>Math.round(buffer.length / 1024)\<close>: halves round up.\<close>

definition roundKB :: "nat \<Rightarrow> nat" where
  "roundKB n = (n + 512) div 1024"

text \<open>
  The fixed informational message, in Korean: "HWP file information:", "File name: ...",
  "File size: ... KB", "This file is in Hancom's HWP format.", "Text extraction may be
  limited.", "For a complete conversion:", "1. Open the file in the Hangul program",
  "2. Save it as text (.txt) and upload it", "3. Or save it as Word (.docx) and upload it".
\<close>

definition hwpInfoText :: "jsstring \<Rightarrow> nat \<Rightarrow> jsstring" where
  "hwpInfoText name len =
     js ''HWP '' @ [0xD30C, 0xC77C] @ js '' '' @ [0xC815, 0xBCF4] @ js '':'' @ [10]
     @ [0xD30C, 0xC77C, 0xBA85] @ js '': '' @ name @ [10]
     @ [0xD30C, 0xC77C] @ js '' '' @ [0xD06C, 0xAE30] @ js '': '' @ decimal (roundKB len)
     @ js '' KB'' @ [10, 10]
     @ [0xC774] @ js '' '' @ [0xD30C, 0xC77C, 0xC740] @ js '' ''
     @ [0xD55C, 0xAE00, 0xACFC, 0xCEF4, 0xD4E8, 0xD130, 0xC758] @ js '' HWP ''
     @ [0xD615, 0xC2DD, 0xC785, 0xB2C8, 0xB2E4] @ js ''.'' @ [10]
     @ [0xD14D, 0xC2A4, 0xD2B8] @ js '' '' @ [0xCD94, 0xCD9C, 0xC774] @ js '' ''
     @ [0xC81C, 0xD55C, 0xC801, 0xC77C] @ js '' '' @ [0xC218] @ js '' ''
     @ [0xC788, 0xC2B5, 0xB2C8, 0xB2E4] @ js ''.'' @ [10, 10]
     @ [0xC644, 0xC804, 0xD55C] @ js '' '' @ [0xBCC0, 0xD658, 0xC744] @ js '' ''
     @ [0xC704, 0xD574, 0xC11C, 0xB294] @ js '':'' @ [10]
     @ js ''1. '' @ [0xD55C, 0xAE00] @ js '' ''
     @ [0xD504, 0xB85C, 0xADF8, 0xB7A8, 0xC5D0, 0xC11C] @ js '' '' @ [0xD30C, 0xC77C, 0xC744]
     @ js '' '' @ [0xC5F4, 0xC5B4, 0xC8FC, 0xC138, 0xC694] @ [10]
     @ js ''2. '' @ [0xD14D, 0xC2A4, 0xD2B8] @ js '' '' @ [0xD615, 0xC2DD] @ js ''(.txt)''
     @ [0xC73C, 0xB85C] @ js '' '' @ [0xC800, 0xC7A5] @ js '' '' @ [0xD6C4] @ js '' ''
     @ [0xC5C5, 0xB85C, 0xB4DC, 0xD574, 0xBCF4, 0xC138, 0xC694] @ [10]
     @ js ''3. '' @ [0xB610, 0xB294] @ js '' Word '' @ [0xD615, 0xC2DD] @ js ''(.docx)''
     @ [0xC73C, 0xB85C] @ js '' '' @ [0xC800, 0xC7A5] @ js '' '' @ [0xD6C4] @ js '' ''
     @ [0xC5C5, 0xB85C, 0xB4DC, 0xD574, 0xBCF4, 0xC138, 0xC694]"

text \<open>
  The heading "Text extracted from the HWP document:" and the suffix
  "... (the text was cut off)", each with two newlines.
\<close>

definition hwpHeading :: jsstring where
  "hwpHeading =
     js ''HWP '' @ [0xBB38, 0xC11C, 0xC5D0, 0xC11C] @ js '' '' @ [0xCD94, 0xCD9C, 0xB41C]
     @ js '' '' @ [0xD14D, 0xC2A4, 0xD2B8] @ js '':'' @ [10, 10]"

definition hwpTruncatedSuffix :: jsstring where
  "hwpTruncatedSuffix =
     [10, 10] @ js ''... ('' @ [0xD14D, 0xC2A4, 0xD2B8, 0xAC00] @ js '' ''
     @ [0xC798, 0xB838, 0xC2B5, 0xB2C8, 0xB2E4] @ js '')''"

definition hwpText :: "codecs \<Rightarrow> jsstring \<Rightarrow> buffer \<Rightarrow> jsstring" where
  "hwpText lib name buf =
     (let extractedText = salvage lib buf in
      if extractedText = [] \<or> length extractedText < 10
      then hwpInfoText name (length buf)
      else hwpHeading @ take 2000 extractedText
           @ (if length extractedText > 2000 then hwpTruncatedSuffix else []))"


section \<open>Spreadsheet serialisation: the \<open>.xlsx\<close>/\<open>.xls\<close> branch of \<open>convertToImage\<close>\<close>

text \<open>
  A worksheet as the library presents it: the result of
  \<open>XLSX.utils.sheet_to_csv(worksheet, {FS: '|'})\<close>, which may raise; the decoded
  \<open>worksheet['!ref']\<close> when there is one; and for a column and a row the string
  \<open>cell.v.toString()\<close> of a cell that has a value. A workbook is the list of its sheet
  names, each with its worksheet.
\<close>

record cellRange =
  s_r :: nat
  s_c :: nat
  e_r :: nat
  e_c :: nat

record worksheet =
  sheetToCsv :: "jsstring result"
  sheetRef :: "cellRange option"
  cellValue :: "nat \<Rightarrow> nat \<Rightarrow> jsstring option"

type_synonym workbook = "(jsstring \<times> worksheet) list"

text \<open>\<open>s.split(c)\<close> for a single character \<open>c\<close>.\<close>

fun splitChar :: "nat \<Rightarrow> jsstring \<Rightarrow> jsstring \<Rightarrow> jsstring list" where
  "splitChar sep cur [] = [cur]"
| "splitChar sep cur (c # cs) =
     (if c = sep then cur # splitChar sep [] cs else splitChar sep (cur @ [c]) cs)"

text \<open>
  The rows taken from the CSV text: of the first 20 lines, trimmed, those that are neither
  empty nor ten bars.
\<close>

definition csvRows :: "jsstring \<Rightarrow> jsstring list" where
  "csvRows csvContent =
     filter (\<lambda>line. line \<noteq> [] \<and> line \<noteq> replicate 10 124)
       (map trim (take 20 (splitChar 10 [] csvContent)))"

text \<open>
  The fallback when \<open>sheet_to_csv\<close> raises: the rows \<open>range.s.r\<close> to
  \<open>min(range.e.r, range.s.r + 19)\<close> over the columns \<open>range.s.c\<close> to
  \<open>min(range.e.c, range.s.c + 10)\<close>; a row is kept when one of its cells has a value. The
  default range \<open>A1:Z100\<close> is rows 0 to 99 and columns 0 to 25.
\<close>

definition sheetRange :: "worksheet \<Rightarrow> cellRange" where
  "sheetRange ws =
     (case sheetRef ws of
        None \<Rightarrow> \<lparr>s_r = 0, s_c = 0, e_r = 99, e_c = 25\<rparr>
      | Some r \<Rightarrow> r)"

definition rangeRows :: "cellRange \<Rightarrow> nat list" where
  "rangeRows rng = [s_r rng ..< Suc (min (e_r rng) (s_r rng + 19))]"

definition rangeColumns :: "cellRange \<Rightarrow> nat list" where
  "rangeColumns rng = [s_c rng ..< Suc (min (e_c rng) (s_c rng + 10))]"

definition rowData :: "worksheet \<Rightarrow> nat \<Rightarrow> jsstring list" where
  "rowData ws R =
     map (\<lambda>C. case cellValue ws C R of Some v \<Rightarrow> trim v | None \<Rightarrow> [])
       (rangeColumns (sheetRange ws))"

definition hasData :: "worksheet \<Rightarrow> nat \<Rightarrow> bool" where
  "hasData ws R = list_ex (\<lambda>C. cellValue ws C R \<noteq> None) (rangeColumns (sheetRange ws))"

definition cellRows :: "worksheet \<Rightarrow> jsstring list" where
  "cellRows ws =
     map (\<lambda>R. joinWith (js '' | '') (rowData ws R))
       (filter (hasData ws) (rangeRows (sheetRange ws)))"

definition sheetRows :: "worksheet \<Rightarrow> jsstring list" where
  "sheetRows ws =
     (case sheetToCsv ws of
        Inr csvContent \<Rightarrow> csvRows csvContent
      | Inl csvError \<Rightarrow> cellRows ws)"

definition sheetHasMore :: "worksheet \<Rightarrow> bool" where
  "sheetHasMore ws =
     (case sheetToCsv ws of
        Inr csvContent \<Rightarrow> length (splitChar 10 [] csvContent) > 20
      | Inl csvError \<Rightarrow> e_r (sheetRange ws) > s_r (sheetRange ws) + 19)"

text \<open>
  The Korean literals: "... (there are more rows)", "... and " with
  " more sheets." around the number, and "No data could be extracted from the Excel
  file.".
\<close>

definition moreRowsText :: jsstring where
  "moreRowsText =
     js ''... ('' @ [0xB354] @ js '' '' @ [0xB9CE, 0xC740] @ js '' '' @ [0xD589, 0xC774]
     @ js '' '' @ [0xC788, 0xC2B5, 0xB2C8, 0xB2E4] @ js '')''"

definition moreSheetsText :: "nat \<Rightarrow> jsstring" where
  "moreSheetsText n =
     js ''... '' @ [0xADF8, 0xB9AC, 0xACE0] @ js '' '' @ decimal n
     @ [0xAC1C, 0xC758] @ js '' '' @ [0xC2DC, 0xD2B8, 0xAC00] @ js '' '' @ [0xB354]
     @ js '' '' @ [0xC788, 0xC2B5, 0xB2C8, 0xB2E4] @ js ''.''"

definition noExcelDataText :: jsstring where
  "noExcelDataText =
     js ''Excel '' @ [0xD30C, 0xC77C, 0xC5D0, 0xC11C] @ js '' ''
     @ [0xB370, 0xC774, 0xD130, 0xB97C] @ js '' '' @ [0xCD94, 0xCD9C, 0xD560] @ js '' ''
     @ [0xC218] @ js '' '' @ [0xC5C6, 0xC2B5, 0xB2C8, 0xB2E4] @ js ''.''"

text \<open>What one turn of the loop over the first three sheets appends to \<open>excelContent\<close>.\<close>

definition sheetText :: "jsstring \<times> worksheet \<Rightarrow> jsstring" where
  "sheetText sheet =
     js ''['' @ fst sheet @ js '']'' @ [10]
     @ concat (map (\<lambda>line. line @ [10]) (sheetRows (snd sheet)))
     @ (if sheetHasMore (snd sheet) then moreRowsText @ [10] else [])
     @ [10]"

definition excelContent :: "workbook \<Rightarrow> jsstring" where
  "excelContent wb =
     concat (map sheetText (take 3 wb))
     @ (if length wb > 3 then moreSheetsText (length wb - 3) else [])"

definition excelText :: "workbook \<Rightarrow> jsstring" where
  "excelText wb =
     (if trim (excelContent wb) = [] then noExcelDataText else excelContent wb)"








section \<open>PageRenderer: \<open>createTextImage\<close>, \<open>createSimpleTextImage\<close>, \<open>createErrorImage\<close>\<close>

text \<open>
  What the JPEG written at \<open>outputPath\<close> shows: a re-encoded raster input; a text page
  with its title and layout; the fallback page with the file type and the length of the
  text; an error page with its message; the minimal white page.
\<close>

datatype image =
    RasterImage
  | TextImage jsstring layoutPage
  | SimpleTextImage jsstring nat
  | ErrorImage jsstring
  | BlankImage

text \<open>
  The libraries behind the pipeline. \<open>render img\<close> is the \<open>sharp\<close> pipeline that writes
  the image (\<open>Some msg\<close>: it raises). \<open>htmlToText\<close> is the chain of replacements of the
  HTML branch, on which no property below depends. \<open>embedImage\<close> is the re-encoding at the
  plan's quality with \<open>embedJpg\<close>, before the page is added; \<open>drawImage\<close> is
  \<open>page.drawImage\<close> with the removal of the temporary file, after the page is added;
  \<open>drawErrorPage\<close> is \<open>addPage\<close> with the two \<open>drawText\<close> calls of the loop's
  \<open>catch\<close>, for the original name and the message.
\<close>

record libs =
  codecsOf :: codecs
  render :: "image \<Rightarrow> jsstring option"
  htmlToText :: "jsstring \<Rightarrow> jsstring"
  embedImage :: "image \<Rightarrow> int \<Rightarrow> jsstring option"
  drawImage :: "image \<Rightarrow> jsstring option"
  drawErrorPage :: "jsstring \<Rightarrow> jsstring \<Rightarrow> jsstring option"

text \<open>
  The value \<open>convertToImage\<close> returns, \<open>true\<close>, \<open>false\<close> or \<open>'pdf'\<close>, with the image
  left at \<open>outputPath\<close> if one was written: \<open>fs.existsSync(tempImagePath)\<close> holds when
  there is one.
\<close>

datatype converted = Returned bool | ReturnedPdf

type_synonym conversion = "converted \<times> image option"

definition escapeMarkup :: "jsstring \<Rightarrow> jsstring" where
  "escapeMarkup s =
     replaceAll 62 (js ''&gt;'') (replaceAll 60 (js ''&lt;'') (replaceAll 38 (js ''&amp;'') s))"

definition createSimpleTextImage :: "libs \<Rightarrow> jsstring \<Rightarrow> jsstring \<Rightarrow> conversion" where
  "createSimpleTextImage lib text fileType =
     (case render lib (SimpleTextImage fileType (length text)) of
        None \<Rightarrow> (Returned True, Some (SimpleTextImage fileType (length text)))
      | Some err \<Rightarrow> (Returned False, None))"

definition createTextImage :: "libs \<Rightarrow> jsstring \<Rightarrow> jsstring \<Rightarrow> conversion" where
  "createTextImage lib text fileType =
     (case render lib (TextImage (escapeMarkup fileType) (textLayout text)) of
        None \<Rightarrow> (Returned True, Some (TextImage (escapeMarkup fileType) (textLayout text)))
      | Some err \<Rightarrow> createSimpleTextImage lib (effectiveText text) fileType)"

definition createErrorImage :: "libs \<Rightarrow> jsstring \<Rightarrow> conversion result" where
  "createErrorImage lib errorMessage =
     (case render lib (ErrorImage (escapeMarkup errorMessage)) of
        None \<Rightarrow> Inr (Returned True, Some (ErrorImage (escapeMarkup errorMessage)))
      | Some err \<Rightarrow>
          (case render lib BlankImage of
             None \<Rightarrow> Inr (Returned True, Some BlankImage)
           | Some err2 \<Rightarrow> Inl err2))"

section \<open>FormatDispatcher: \<open>convertToImage\<close>\<close>

text \<open>
  What the file system and the format libraries give for one source file:
  \<open>fs.existsSync\<close>, the lower-cased \<open>path.extname\<close>, \<open>path.basename\<close>,
  \<open>fs.readFileSync\<close>, whether \<open>sharp(filePath)\<close> raises, the number of pages
  \<open>PDFDocument.load\<close> and \<open>copyPages\<close> give, the \<open>value\<close> of
  \<open>mammoth.extractRawText\<close>, and the three ways of reading the workbook (code page 949,
  default, from the buffer).
\<close>

record sourceFile =
  present :: bool
  ext :: string
  basename :: jsstring
  readFile :: "buffer result"
  sharpFile :: "jsstring option"
  pdfPages :: "nat result"
  docxValue :: "jsstring result"
  workbook949 :: "workbook result"
  workbookDefault :: "workbook result"
  workbookBuffer :: "workbook result"

text \<open>\<open>try { body } catch (error) { handler }\<close>.\<close>

definition catch :: "'a result \<Rightarrow> (jsstring \<Rightarrow> 'a result) \<Rightarrow> 'a result" where
  "catch body handler = (case body of Inl err \<Rightarrow> handler err | Inr v \<Rightarrow> Inr v)"

text \<open>
  The Korean literals, in the order of the source: "The document content cannot be read.",
  "Word document", "The DOCX file cannot be read.", "Excel document",
  "Excel file processing error: ", "Text file", "The text file cannot be read.",
  "HTML document", "The HTML file cannot be read.", "HWP document",
  "HWP file processing error: ", " file", "Unsupported file format: ",
  "The file cannot be read: ", "An error occurred while converting the file.".
\<close>

definition docxEmptyText :: jsstring where
  "docxEmptyText =
     [0xBB38, 0xC11C] @ js '' '' @ [0xB0B4, 0xC6A9, 0xC744] @ js '' '' @ [0xC77D, 0xC744]
     @ js '' '' @ [0xC218] @ js '' '' @ [0xC5C6, 0xC2B5, 0xB2C8, 0xB2E4] @ js ''.''"

definition wordTitle :: jsstring where
  "wordTitle = js ''Word '' @ [0xBB38, 0xC11C]"

definition docxErrorText :: jsstring where
  "docxErrorText =
     js ''DOCX '' @ [0xD30C, 0xC77C, 0xC744] @ js '' '' @ [0xC77D, 0xC744] @ js '' ''
     @ [0xC218] @ js '' '' @ [0xC5C6, 0xC2B5, 0xB2C8, 0xB2E4] @ js ''.''"

definition excelTitle :: jsstring where
  "excelTitle = js ''Excel '' @ [0xBB38, 0xC11C]"

definition excelErrorText :: jsstring where
  "excelErrorText =
     js ''Excel '' @ [0xD30C, 0xC77C] @ js '' '' @ [0xCC98, 0xB9AC] @ js '' ''
     @ [0xC624, 0xB958] @ js '': ''"

definition textTitle :: jsstring where
  "textTitle = [0xD14D, 0xC2A4, 0xD2B8] @ js '' '' @ [0xD30C, 0xC77C]"

definition textErrorText :: jsstring where
  "textErrorText =
     [0xD14D, 0xC2A4, 0xD2B8] @ js '' '' @ [0xD30C, 0xC77C, 0xC744] @ js '' ''
     @ [0xC77D, 0xC744] @ js '' '' @ [0xC218] @ js '' ''
     @ [0xC5C6, 0xC2B5, 0xB2C8, 0xB2E4] @ js ''.''"

definition htmlTitle :: jsstring where
  "htmlTitle = js ''HTML '' @ [0xBB38, 0xC11C]"

definition htmlErrorText :: jsstring where
  "htmlErrorText =
     js ''HTML '' @ [0xD30C, 0xC77C, 0xC744] @ js '' '' @ [0xC77D, 0xC744] @ js '' ''
     @ [0xC218] @ js '' '' @ [0xC5C6, 0xC2B5, 0xB2C8, 0xB2E4] @ js ''.''"

definition hwpTitle :: jsstring where
  "hwpTitle = js ''HWP '' @ [0xBB38, 0xC11C]"

definition hwpErrorText :: jsstring where
  "hwpErrorText =
     js ''HWP '' @ [0xD30C, 0xC77C] @ js '' '' @ [0xCC98, 0xB9AC] @ js '' ''
     @ [0xC624, 0xB958] @ js '': ''"

definition fileTitleSuffix :: jsstring where
  "fileTitleSuffix = js '' '' @ [0xD30C, 0xC77C]"

definition unsupportedText :: jsstring where
  "unsupportedText =
     [0xC9C0, 0xC6D0, 0xD558, 0xC9C0] @ js '' '' @ [0xC54A, 0xB294] @ js '' ''
     @ [0xD30C, 0xC77C] @ js '' '' @ [0xD615, 0xC2DD] @ js '': ''"

definition unreadableText :: jsstring where
  "unreadableText =
     [0xD30C, 0xC77C, 0xC744] @ js '' '' @ [0xC77D, 0xC744] @ js '' '' @ [0xC218]
     @ js '' '' @ [0xC5C6, 0xC2B5, 0xB2C8, 0xB2E4] @ js '': ''"

definition conversionErrorText :: jsstring where
  "conversionErrorText =
     [0xD30C, 0xC77C] @ js '' '' @ [0xBCC0, 0xD658] @ js '' '' @ [0xC911] @ js '' ''
     @ [0xC624, 0xB958, 0xAC00] @ js '' ''
     @ [0xBC1C, 0xC0DD, 0xD588, 0xC2B5, 0xB2C8, 0xB2E4] @ js ''.''"

definition imageExtensions :: "string list" where
  "imageExtensions =
     [''.jpg'', ''.jpeg'', ''.png'', ''.gif'', ''.bmp'', ''.tiff'', ''.tif'', ''.webp'']"

definition openWorkbook :: "sourceFile \<Rightarrow> workbook result" where
  "openWorkbook w =
     (case workbook949 w of
        Inr wb \<Rightarrow> Inr wb
      | Inl e1 \<Rightarrow>
          (case workbookDefault w of
             Inr wb \<Rightarrow> Inr wb
           | Inl e2 \<Rightarrow> workbookBuffer w))"

text \<open>
  The text a branch reads from the file: the bytes, then \<open>detectAndConvertEncoding\<close>.
\<close>

definition readText :: "libs \<Rightarrow> sourceFile \<Rightarrow> jsstring result" where
  "readText lib w =
     (case readFile w of
        Inl err \<Rightarrow> Inl err
      | Inr buf \<Rightarrow> detectAndConvertEncoding (codecsOf lib) buf)"

text \<open>
  The \<open>switch\<close> on the extension. Each branch is its own \<open>try\<close> with a \<open>catch\<close> that
  draws an error image; the image branch and \<open>.pdf\<close> have none.
\<close>

definition convertSwitch :: "libs \<Rightarrow> sourceFile \<Rightarrow> conversion result" where
  "convertSwitch lib w =
     (if ext w \<in> set imageExtensions then
        (case sharpFile w of
           Some err \<Rightarrow> Inl err
         | None \<Rightarrow> Inr (Returned True, Some RasterImage))
      else if ext w = ''.docx'' then
        catch
          (case docxValue w of
             Inl err \<Rightarrow> Inl err
           | Inr v \<Rightarrow> Inr (createTextImage lib (if v = [] then docxEmptyText else v) wordTitle))
          (\<lambda>err. createErrorImage lib docxErrorText)
      else if ext w = ''.xlsx'' \<or> ext w = ''.xls'' then
        catch
          (case openWorkbook w of
             Inl err \<Rightarrow> Inl err
           | Inr wb \<Rightarrow> Inr (createTextImage lib (excelText wb) excelTitle))
          (\<lambda>err. createErrorImage lib (excelErrorText @ err))
      else if ext w = ''.txt'' then
        catch
          (case readText lib w of
             Inl err \<Rightarrow> Inl err
           | Inr textContent \<Rightarrow> Inr (createTextImage lib textContent textTitle))
          (\<lambda>err. createErrorImage lib textErrorText)
      else if ext w = ''.html'' \<or> ext w = ''.htm'' then
        catch
          (case readText lib w of
             Inl err \<Rightarrow> Inl err
           | Inr htmlContent \<Rightarrow>
               Inr (createTextImage lib (htmlToText lib htmlContent) htmlTitle))
          (\<lambda>err. createErrorImage lib htmlErrorText)
      else if ext w = ''.hwp'' \<or> ext w = ''.hwpx'' then
        catch
          (case readFile w of
             Inl err \<Rightarrow> Inl err
           | Inr buf \<Rightarrow>
               Inr (createTextImage lib (hwpText (codecsOf lib) (basename w) buf) hwpTitle))
          (\<lambda>err. createErrorImage lib (hwpErrorText @ err))
      else if ext w = ''.pdf'' then Inr (ReturnedPdf, None)
      else
        catch
          (case readText lib w of
             Inl err \<Rightarrow> Inl err
           | Inr textContent \<Rightarrow>
               if textContent \<noteq> []
                  \<and> list_ex (\<lambda>c. isHangul c \<or> isAsciiLetter c \<or> isAsciiDigit c) textContent
               then Inr (createTextImage lib textContent (js (ext w) @ fileTitleSuffix))
               else createErrorImage lib (unsupportedText @ js (ext w)))
          (\<lambda>err. createErrorImage lib (unreadableText @ js (ext w))))"

definition convertToImage :: "libs \<Rightarrow> sourceFile \<Rightarrow> conversion result" where
  "convertToImage lib w =
     catch (convertSwitch lib w) (\<lambda>err. createErrorImage lib conversionErrorText)"

section \<open>PdfAssembler: the loop over the files in \<open>app.post('/convert')\<close>\<close>

text \<open>
  The pages of \<open>pdfDoc\<close>, in order: a page copied from a source PDF (the file and the
  page's index), a page holding an image at the plan's quality, and the error page with
  the original name and the message.
\<close>

datatype page =
    CopiedPage jsstring nat
  | ImagePage image int
  | ErrorPage jsstring jsstring

text \<open>
  The \<open>try\<close> block for one file: it ends normally or raises, and in both cases leaves the
  pages added so far.
\<close>

datatype outcome =
    Done "page list"
  | Raised jsstring "page list"

definition tryFile :: "libs \<Rightarrow> int \<Rightarrow> fileInfo \<times> sourceFile \<Rightarrow> page list \<Rightarrow> outcome" where
  "tryFile lib q fw pages =
     (if ext (snd fw) = ''.pdf'' then
        (case pdfPages (snd fw) of
           Inl err \<Rightarrow> Raised err pages
         | Inr n \<Rightarrow> Done (pages @ map (CopiedPage (filename (fst fw))) [0..<n]))
      else
        (case convertToImage lib (snd fw) of
           Inl err \<Rightarrow> Raised err pages
         | Inr (Returned True, Some img) \<Rightarrow>
             (case embedImage lib img q of
                Some err \<Rightarrow> Raised err pages
              | None \<Rightarrow>
                  (case drawImage lib img of
                     Some err \<Rightarrow> Raised err (pages @ [ImagePage img q])
                   | None \<Rightarrow> Done (pages @ [ImagePage img q])))
         | Inr other \<Rightarrow> Done pages))"

text \<open>
  One turn of the loop: a missing file is skipped; an exception of the \<open>try\<close> block
  becomes an error page; an exception raised while that page is drawn leaves the loop
  (\<open>Inl\<close>) and reaches the handler's outer \<open>catch\<close>, which answers 500.
\<close>

definition processFile ::
  "libs \<Rightarrow> int \<Rightarrow> fileInfo \<times> sourceFile \<Rightarrow> page list \<Rightarrow> page list result" where
  "processFile lib q fw pages =
     (if \<not> present (snd fw) then Inr pages
      else
        (case tryFile lib q fw pages of
           Done pages' \<Rightarrow> Inr pages'
         | Raised err pages' \<Rightarrow>
             (case drawErrorPage lib (originalname (fst fw)) err of
                None \<Rightarrow> Inr (pages' @ [ErrorPage (originalname (fst fw)) err])
              | Some err2 \<Rightarrow> Inl err2)))"

fun convertLoop ::
  "libs \<Rightarrow> int \<Rightarrow> (fileInfo \<times> sourceFile) list \<Rightarrow> page list \<Rightarrow> page list result" where
  "convertLoop lib q [] pages = Inr pages"
| "convertLoop lib q (fw # rest) pages =
     (case processFile lib q fw pages of
        Inl err \<Rightarrow> Inl err
      | Inr pages' \<Rightarrow> convertLoop lib q rest pages')"



section \<open>Example environments\<close>

text \<open>
  Concrete libraries and files for the examples. On a buffer of ASCII bytes the decodings
  under \<open>utf8\<close>, \<open>euc-kr\<close> and \<open>cp949\<close> are the bytes themselves; \<open>utf16le\<close> pairs the
  bytes, low byte first.
\<close>

definition bytes :: "string \<Rightarrow> buffer" where
  "bytes s = map of_char s"

fun utf16leUnits :: "buffer \<Rightarrow> jsstring" where
  "utf16leUnits (lo # hi # rest) = (unat lo + 256 * unat hi) # utf16leUnits rest"
| "utf16leUnits rest = []"

definition asciiCodecs :: codecs where
  "asciiCodecs =
     \<lparr>detectEncoding = (\<lambda>buf. Inr (Some ''ascii'')),
      encodingExists =
        (\<lambda>e. Inr (e \<in> set [''ascii'', ''utf8'', ''euc-kr'', ''cp949'', ''utf16le''])),
      iconvDecode =
        (\<lambda>buf e. if e = ''utf16le'' then Inr (utf16leUnits buf) else Inr (map unat buf)),
      toStringUtf8 = map unat\<rparr>"

text \<open>The same codecs with a detector that raises.\<close>

definition deafCodecs :: codecs where
  "deafCodecs = asciiCodecs \<lparr>detectEncoding := (\<lambda>buf. Inl (js ''detector failed''))\<rparr>"

text \<open>A token of 71 letters.\<close>

definition token71 :: string where
  "token71 = ''xxxxxxxxxxxxxxxxxxxxxxxxxxxxxxxxxxxxxxxxxxxxxxxxxxxxxxxxxxxxxxxxxxxxxxx''"

text \<open>Libraries under which nothing raises.\<close>

definition quietLibs :: libs where
  "quietLibs =
     \<lparr>codecsOf = asciiCodecs,
      render = (\<lambda>img. None),
      htmlToText = (\<lambda>s. s),
      embedImage = (\<lambda>img q. None),
      drawImage = (\<lambda>img. None),
      drawErrorPage = (\<lambda>name msg. None)\<rparr>"

text \<open>
  The same libraries with a standard PDF font that cannot encode characters beyond
  Latin-1: drawing such text raises.
\<close>

definition latinFontLibs :: libs where
  "latinFontLibs =
     quietLibs
       \<lparr>drawErrorPage :=
          (\<lambda>name msg. if list_ex (\<lambda>c. 255 < c) (name @ msg)
                       then Some (js ''WinAnsi cannot encode'') else None)\<rparr>"

definition missingFile :: "string \<Rightarrow> jsstring \<Rightarrow> sourceFile" where
  "missingFile e name =
     \<lparr>present = False, ext = e, basename = name,
      readFile = Inl (js ''ENOENT''), sharpFile = Some (js ''ENOENT''),
      pdfPages = Inl (js ''ENOENT''), docxValue = Inl (js ''ENOENT''),
      workbook949 = Inl (js ''ENOENT''), workbookDefault = Inl (js ''ENOENT''),
      workbookBuffer = Inl (js ''ENOENT'')\<rparr>"

definition textFile :: "jsstring \<Rightarrow> buffer \<Rightarrow> sourceFile" where
  "textFile name content =
     (missingFile ''.txt'' name)
       \<lparr>present := True, readFile := Inr content,
        sharpFile := Some (js ''unsupported image format''),
        pdfPages := Inl (js ''No PDF header found''),
        docxValue := Inl (js ''not a zip file''),
        workbook949 := Inl (js ''not a workbook''),
        workbookDefault := Inl (js ''not a workbook''),
        workbookBuffer := Inl (js ''not a workbook'')\<rparr>"


definition corruptPdfFile :: "jsstring \<Rightarrow> sourceFile" where
  "corruptPdfFile name =
     (missingFile ''.pdf'' name)
       \<lparr>present := True, readFile := Inr (bytes ''%PD''),
        pdfPages := Inl (js ''No PDF header found'')\<rparr>"

definition info :: "jsstring \<Rightarrow> nat \<Rightarrow> fileInfo" where
  "info name n = \<lparr>filename = name, originalname = name, size = n\<rparr>"



text \<open>
  Batches: a text file \<open>Hello world\<close> followed by a file that is missing; a PDF of three
  pages; and a PDF that cannot be loaded, uploaded under a Korean name ("document.pdf"),
  followed by the text file.
\<close>

definition helloFile :: "fileInfo \<times> sourceFile" where
  "helloFile = (info (js ''hello.txt'') 11, textFile (js ''hello.txt'') (bytes ''Hello world''))"



definition brokenPdf :: "fileInfo \<times> sourceFile" where
  "brokenPdf =
     (\<lparr>filename = js ''17-42.pdf'', originalname = [0xBB38, 0xC11C] @ js ''.pdf'', size = 3\<rparr>,
      corruptPdfFile (js ''17-42.pdf''))"


section \<open>Theorems\<close>

subsection \<open>CompressionPlanner\<close>

lemma quality_clamped:
  "10 \<le> quality (calculateCompressionSettings t s c) \<and>
   quality (calculateCompressionSettings t s c) \<le> 100"
  by (simp add: calculateCompressionSettings_def ratioQuality_def Let_def split: option.splits)

text \<open>
  C2. The claim: for the custom tier the ratio is \<open>min(1, targetSize / aggregate)\<close> when a
  target size is given, and the caller's explicit \<open>compressionRatio\<close> otherwise. The code
  at two requests over one file of 1024 bytes (aggregate 1 KB): with no target size and an
  explicit ratio of 1/4 the plan's ratio is 1 and its quality 80, since the explicit ratio
  never reaches the planner; with a target size of 2 KB the plan's ratio is 2, not capped
  at 1.
\<close>

theorem custom_ratio_ignores_explicit_ratio_and_cap:
  "compressionPlan \<lparr>files = [\<lparr>filename = js ''a.txt'', originalname = js ''a.txt'', size = 1024\<rparr>],
                    compression = Some ''custom'', targetSizeKB = None,
                    bodyCompressionRatio = Some (1/4)\<rparr>
     = \<lparr>quality = 80, compressionRatio = 1\<rparr>
   \<and> compressionPlan \<lparr>files = [\<lparr>filename = js ''a.txt'', originalname = js ''a.txt'', size = 1024\<rparr>],
                    compression = Some ''custom'', targetSizeKB = Some 2,
                    bodyCompressionRatio = None\<rparr>
     = \<lparr>quality = 95, compressionRatio = 2\<rparr>"
  by (simp add: compressionPlan_def calculateCompressionSettings_def totalOriginalSize_def
      ratioQuality_def)




subsection \<open>Deletion\<close>

text \<open>
  C9, as stated, fails: after a successful deletion of a stored file, deleting the same
  identifier again is answered with the error response 404 \<open>File not found\<close>.
\<close>

theorem delete_twice_counterexample:
  "fst (deleteFile (\<lambda>_. None) (snd (deleteFile (\<lambda>_. None) {js ''a.txt''} (js ''a.txt''))) (js ''a.txt''))
     = JsonError 404 (js ''File not found'')"
  by (simp add: deleteFile_def)

text \<open>
  C9, amended. Deleting a stored file identifier whose unlink succeeds removes its storage
  and reports success; deleting an identifier that is not stored leaves the storage
  unchanged and is reported to the caller as the error 404 \<open>File not found\<close>.
\<close>

theorem delete_stored_then_absent:
  "(name \<in> uploads \<and> unlinkSync name = None \<longrightarrow>
      deleteFile unlinkSync uploads name
        = (Json200 (js ''File deleted successfully''), uploads - {name}))
   \<and> (name \<notin> uploads \<longrightarrow>
      deleteFile unlinkSync uploads name = (JsonError 404 (js ''File not found''), uploads))"
  by (simp add: deleteFile_def)

theorem delete_stored_then_absent_witness:
  "js ''a.txt'' \<in> {js ''a.txt'', js ''b.txt''} \<and> (\<lambda>_. None :: jsstring option) (js ''a.txt'') = None
   \<and> deleteFile (\<lambda>_. None) {js ''a.txt'', js ''b.txt''} (js ''a.txt'')
        = (Json200 (js ''File deleted successfully''), {js ''a.txt'', js ''b.txt''} - {js ''a.txt''})
   \<and> js ''c.txt'' \<notin> {js ''a.txt'', js ''b.txt''}
   \<and> deleteFile (\<lambda>_. None) {js ''a.txt'', js ''b.txt''} (js ''c.txt'')
        = (JsonError 404 (js ''File not found''), {js ''a.txt'', js ''b.txt''})"
  using delete_stored_then_absent [of "js ''a.txt''" "{js ''a.txt'', js ''b.txt''}" "\<lambda>_. None"]
        delete_stored_then_absent [of "js ''c.txt''" "{js ''a.txt'', js ''b.txt''}" "\<lambda>_. None"]
  by (simp add: js_def)

subsection \<open>TextLayoutEngine\<close>

lemma displayLines_at_most_40: "length (displayLines (textLayout text)) \<le> 40"
  by (simp add: textLayout_def Let_def)

lemma wrapStep_bound:
  assumes "list_all (\<lambda>l. length l \<le> maxLineLength) (fst st)"
    and "length (snd st) \<le> maxLineLength"
    and "length w \<le> maxLineLength"
  shows "list_all (\<lambda>l. length l \<le> maxLineLength) (fst (wrapStep st w)) \<and>
         length (snd (wrapStep st w)) \<le> maxLineLength"
  using assms by (cases st) (auto simp: wrapStep_def)

lemma foldl_wrapStep_bound:
  "list_all (\<lambda>l. length l \<le> maxLineLength) (fst st) \<Longrightarrow>
   length (snd st) \<le> maxLineLength \<Longrightarrow>
   list_all (\<lambda>w. length w \<le> maxLineLength) ws \<Longrightarrow>
   list_all (\<lambda>l. length l \<le> maxLineLength) (fst (foldl wrapStep st ws)) \<and>
   length (snd (foldl wrapStep st ws)) \<le> maxLineLength"
proof (induction ws arbitrary: st)
  case Nil
  then show ?case by simp
next
  case (Cons w ws)
  have "list_all (\<lambda>l. length l \<le> maxLineLength) (fst (wrapStep st w)) \<and>
        length (snd (wrapStep st w)) \<le> maxLineLength"
    using Cons.prems by (intro wrapStep_bound) auto
  then show ?case using Cons.IH [of "wrapStep st w"] Cons.prems by simp
qed

lemma wrapWords_bound:
  assumes "list_all (\<lambda>w. length w \<le> maxLineLength) ws"
  shows "list_all (\<lambda>l. length l \<le> maxLineLength) (wrapWords ws)"
proof -
  obtain ls cur where fl: "foldl wrapStep ([], []) ws = (ls, cur)"
    by (cases "foldl wrapStep ([], []) ws")
  have "list_all (\<lambda>l. length l \<le> maxLineLength) (fst (foldl wrapStep ([], []) ws)) \<and>
        length (snd (foldl wrapStep ([], []) ws)) \<le> maxLineLength"
    using assms by (intro foldl_wrapStep_bound) auto
  then show ?thesis using fl by (simp add: wrapWords_def)
qed

lemma overlong_effectiveText:
  "effectiveText (js (''a '' @ token71)) = js (''a '' @ token71)"
  by (simp add: token71_def effectiveText_def trim_def isWhiteSpace_def js_def)

lemma overlong_cleanText:
  "cleanText (js (''a '' @ token71)) = js (''a '' @ token71)"
  by (simp add: token71_def cleanText_def replaceAll_def isStrippedControl_def js_def)

lemma overlong_splitWs:
  "splitWs [] (js (''a '' @ token71)) = [js ''a'', js token71]"
  by (simp add: token71_def isWhiteSpace_def js_def)

lemma overlong_wrapWords:
  "wrapWords [js ''a'', js token71] = [js ''a'', js token71]"
  by (simp add: token71_def wrapWords_def wrapStep_def js_def maxLineLength_def)

text \<open>
  C4. The claim: at most 40 lines, each of at most 70 characters unless a single token
  exceeds the budget, and then the token is hard-split. The code on the text made of
  \<open>a\<close>, a space and a token of 71 letters \<open>x\<close>: the token arrives while the current
  line is not empty, so it becomes the current line whole and is pushed unsplit, a line of
  71 characters.
\<close>

theorem overlong_token_after_word_not_split:
  "textLayout (js (''a '' @ token71))
     = \<lparr>displayLines = [js ''a'', js token71], moreLinesText = []\<rparr>
   \<and> length (js token71) = 71"
proof -
  have "textLayout (js (''a '' @ token71))
     = \<lparr>displayLines = [js ''a'', js token71], moreLinesText = []\<rparr>"
    unfolding textLayout_def overlong_effectiveText overlong_cleanText overlong_splitWs
      overlong_wrapWords
    by simp
  moreover have "length (js token71) = 71" by (simp add: token71_def js_def)
  ultimately show ?thesis by (rule conjI)
qed

lemma dropWhile_all: "list_all P xs \<Longrightarrow> dropWhile P xs = []"
  by (induction xs) auto

lemma dropWhile_not_all: "\<not> list_all P xs \<Longrightarrow> dropWhile P xs \<noteq> []"
  by (induction xs) auto

lemma trim_empty_iff: "length (trim s) = 0 \<longleftrightarrow> list_all isWhiteSpace s"
proof
  assume "list_all isWhiteSpace s"
  then have "dropWhile isWhiteSpace s = []" by (rule dropWhile_all)
  then have "trim s = []" by (simp only: trim_def rev.simps dropWhile.simps)
  then show "length (trim s) = 0" by simp
next
  assume a: "length (trim s) = 0"
  show "list_all isWhiteSpace s"
  proof (rule ccontr)
    assume "\<not> list_all isWhiteSpace s"
    then have ne: "dropWhile isWhiteSpace s \<noteq> []" by (rule dropWhile_not_all)
    then have "\<not> isWhiteSpace (hd (dropWhile isWhiteSpace s))" by (rule hd_dropWhile)
    moreover have "hd (dropWhile isWhiteSpace s) \<in> set (rev (dropWhile isWhiteSpace s))"
      using ne by simp
    ultimately have "dropWhile isWhiteSpace (rev (dropWhile isWhiteSpace s)) \<noteq> []"
      by (metis dropWhile_eq_Nil_conv)
    then have "trim s \<noteq> []" by (simp only: trim_def rev_is_Nil_conv not_False_eq_True)
    then show False using a by simp
  qed
qed

lemma effectiveText_blank: "list_all isWhiteSpace t \<Longrightarrow> effectiveText t = emptyContentText"
  using trim_empty_iff [of t] by (simp add: effectiveText_def)

lemma effectiveText_nonblank: "\<not> list_all isWhiteSpace t \<Longrightarrow> effectiveText t = t"
  using trim_empty_iff [of t] by (auto simp: effectiveText_def)

lemma cleanText_take: "cleanText (take 3000 t) = cleanText t"
  by (simp add: cleanText_def)

lemma replaceAll_ws:
  "\<not> isWhiteSpace c \<Longrightarrow> list_all isWhiteSpace s \<Longrightarrow> replaceAll c r s = s"
  by (induction s) (auto simp: replaceAll_def)

lemma cleanText_ws: "list_all isWhiteSpace (take 3000 t) \<Longrightarrow> list_all isWhiteSpace (cleanText t)"
proof -
  assume a: "list_all isWhiteSpace (take 3000 t)"
  have f: "list_all isWhiteSpace (filter (\<lambda>c. \<not> isStrippedControl c) (take 3000 t))"
    using a by (simp add: list_all_iff)
  have n: "\<not> isWhiteSpace 38" "\<not> isWhiteSpace 60" "\<not> isWhiteSpace 62" "\<not> isWhiteSpace 34"
    "\<not> isWhiteSpace 39" by (simp_all add: isWhiteSpace_def)
  show ?thesis unfolding cleanText_def using f n by (simp add: replaceAll_ws)
qed

lemma splitWs_ws:
  "list_all isWhiteSpace s \<Longrightarrow> list_all (\<lambda>w. w = []) (splitWs [] s)"
proof (induction "length s" arbitrary: s rule: less_induct)
  case less
  show ?case
  proof (cases s)
    case Nil
    then show ?thesis by simp
  next
    case (Cons c cs)
    have "list_all isWhiteSpace (dropWhile isWhiteSpace cs)"
      using less.prems Cons by (simp add: list_all_iff) (meson set_dropWhileD)
    moreover have "length (dropWhile isWhiteSpace cs) < length s"
      using Cons by (simp add: length_dropWhile_le less_Suc_eq_le)
    ultimately have "list_all (\<lambda>w. w = []) (splitWs [] (dropWhile isWhiteSpace cs))"
      using less.hyps by blast
    then show ?thesis using less.prems Cons by simp
  qed
qed

lemma foldl_wrapStep_empty:
  "list_all (\<lambda>w. w = []) ws \<Longrightarrow> foldl wrapStep (ls, []) ws = (ls, [])"
  by (induction ws) (auto simp: wrapStep_def js_def maxLineLength_def)

lemma wrapWords_empty: "list_all (\<lambda>w. w = []) ws \<Longrightarrow> wrapWords ws = []"
  by (simp add: wrapWords_def foldl_wrapStep_empty)

lemma textLayout_blank_prefix:
  assumes "list_all isWhiteSpace (take 3000 t)" "\<not> list_all isWhiteSpace t"
  shows "textLayout t = \<lparr>displayLines = [], moreLinesText = []\<rparr>"
proof -
  have "wrapWords (splitWs [] (cleanText t)) = []"
    using assms(1) by (intro wrapWords_empty splitWs_ws cleanText_ws)
  then show ?thesis using assms(2) by (simp add: textLayout_def effectiveText_nonblank)
qed

text \<open>
  C10. Only the first 3000 characters of the text reach control-character stripping,
  escaping and wrapping: the page laid out for a text is the page laid out for its first
  3000 characters, so nothing beyond position 3000 appears on it. (The one case where the
  two pages differ is a text that is not blank while its first 3000 characters are: the
  blank test reads the whole text, no placeholder is substituted, and the page has no
  line at all.)
\<close>

theorem only_first_3000:
  "textLayout text = textLayout (take 3000 text)
   \<or> (list_all isWhiteSpace (take 3000 text)
       \<and> textLayout text = \<lparr>displayLines = [], moreLinesText = []\<rparr>)"
proof (cases "list_all isWhiteSpace (take 3000 text)")
  case True
  show ?thesis
  proof (cases "list_all isWhiteSpace text")
    case True
    have "list_all isWhiteSpace (take 3000 text)" using True by (simp add: list_all_iff) (meson in_set_takeD)
    then show ?thesis using True by (simp add: textLayout_def effectiveText_blank)
  next
    case False
    then show ?thesis using True textLayout_blank_prefix by blast
  qed
next
  case False
  then have "\<not> list_all isWhiteSpace text" by (simp add: list_all_iff) (meson in_set_takeD)
  then have "effectiveText text = text" by (rule effectiveText_nonblank)
  moreover have "effectiveText (take 3000 text) = take 3000 text"
    using False by (rule effectiveText_nonblank)
  ultimately show ?thesis by (simp add: textLayout_def cleanText_take)
qed

subsection \<open>EncodingRecovery\<close>

lemma tryEncodings_none:
  "(\<And>enc. enc \<in> set encs \<Longrightarrow> tryEncoding lib buf enc = None) \<Longrightarrow> tryEncodings lib buf encs = None"
  by (induction encs) auto

lemma tryEncoding_unreasonable:
  assumes "\<And>e decoded. iconvDecode lib buf e = Inr decoded \<Longrightarrow> \<not> looksReasonable decoded"
  shows "tryEncoding lib buf enc = None"
  using assms by (auto simp: tryEncoding_def split: option.splits sum.splits bool.splits)

lemma tryEncodings_rejected:
  "list_all (\<lambda>enc. tryEncoding lib buf enc = None) encs \<Longrightarrow> tryEncodings lib buf encs = None"
  by (induction encs) auto

text \<open>
  C5. \<open>detectAndConvertEncoding\<close> returns a string for every buffer, the empty buffer
  included, and never raises: what the detector, \<open>encodingExists\<close> or \<open>decode\<close> raise
  is caught. When no candidate encoding is accepted (it does not exist, its decoding
  raises or fails the validation), and when the detector raises, the result is the UTF-8
  decoding of the buffer.
\<close>

theorem encoding_recovery_total:
  "(\<exists>s. detectAndConvertEncoding lib buf = Inr s)
   \<and> (\<exists>s. detectAndConvertEncoding lib [] = Inr s)
   \<and> (detectEncoding lib buf = Inr detected
        \<and> list_all (\<lambda>enc. tryEncoding lib buf enc = None) (encodingsToTry detected)
        \<longrightarrow> detectAndConvertEncoding lib buf = Inr (toStringUtf8 lib buf))
   \<and> (detectEncoding lib buf = Inl err
        \<longrightarrow> detectAndConvertEncoding lib buf = Inr (toStringUtf8 lib buf))
   \<and> ((\<forall>e decoded. iconvDecode lib buf e = Inr decoded \<longrightarrow> \<not> looksReasonable decoded)
        \<longrightarrow> detectAndConvertEncoding lib buf = Inr (toStringUtf8 lib buf))"
proof (intro conjI impI)
  show "\<exists>s. detectAndConvertEncoding lib buf = Inr s"
    by (simp add: detectAndConvertEncoding_def split: sum.splits option.splits)
  show "\<exists>s. detectAndConvertEncoding lib [] = Inr s"
    by (simp add: detectAndConvertEncoding_def split: sum.splits option.splits)
  show "detectAndConvertEncoding lib buf = Inr (toStringUtf8 lib buf)"
    if "detectEncoding lib buf = Inr detected
        \<and> list_all (\<lambda>enc. tryEncoding lib buf enc = None) (encodingsToTry detected)"
    using that tryEncodings_rejected [of lib buf "encodingsToTry detected"]
    by (simp add: detectAndConvertEncoding_def)
  show "detectAndConvertEncoding lib buf = Inr (toStringUtf8 lib buf)"
    if "detectEncoding lib buf = Inl err"
    using that by (simp add: detectAndConvertEncoding_def)
  show "detectAndConvertEncoding lib buf = Inr (toStringUtf8 lib buf)"
    if h: "\<forall>e decoded. iconvDecode lib buf e = Inr decoded \<longrightarrow> \<not> looksReasonable decoded"
  proof -
    have "tryEncodings lib buf encs = None" for encs
      using h by (intro tryEncodings_none tryEncoding_unreasonable) blast
    then show ?thesis
      by (simp add: detectAndConvertEncoding_def split: sum.splits)
  qed
qed

lemma dashes_unreasonable:
  "\<not> looksReasonable (map unat (bytes ''--'')) \<and> \<not> looksReasonable (utf16leUnits (bytes ''--''))"
  by (simp add: looksReasonable_def isHangul_def isAsciiLetter_def isAsciiDigit_def bytes_def)

lemma dashes_rejected:
  "list_all (\<lambda>enc. tryEncoding asciiCodecs (bytes ''--'') enc = None)
     (encodingsToTry (Some ''ascii''))"
  using dashes_unreasonable
  by (simp add: encodingsToTry_def tryEncoding_def asciiCodecs_def)

theorem encoding_recovery_total_witness:
  "detectEncoding asciiCodecs (bytes ''--'') = Inr (Some ''ascii'')
   \<and> list_all (\<lambda>enc. tryEncoding asciiCodecs (bytes ''--'') enc = None)
         (encodingsToTry (Some ''ascii''))
   \<and> detectAndConvertEncoding asciiCodecs (bytes ''--'')
        = Inr (toStringUtf8 asciiCodecs (bytes ''--''))
   \<and> detectEncoding deafCodecs (bytes ''--'') = Inl (js ''detector failed'')
   \<and> detectAndConvertEncoding deafCodecs (bytes ''--'')
        = Inr (toStringUtf8 deafCodecs (bytes ''--''))"
proof -
  note t = encoding_recovery_total [of asciiCodecs "bytes ''--''" "Some ''ascii''"]
  note u = encoding_recovery_total
    [of deafCodecs "bytes ''--''" _ "js ''detector failed''"]
  have d: "detectEncoding asciiCodecs (bytes ''--'') = Inr (Some ''ascii'')"
    by (simp add: asciiCodecs_def)
  have e: "detectEncoding deafCodecs (bytes ''--'') = Inl (js ''detector failed'')"
    by (simp add: deafCodecs_def)
  have c1: "detectAndConvertEncoding asciiCodecs (bytes ''--'')
        = Inr (toStringUtf8 asciiCodecs (bytes ''--''))"
    using t [THEN conjunct2, THEN conjunct2, THEN conjunct1] d dashes_rejected by blast
  have c2: "detectAndConvertEncoding deafCodecs (bytes ''--'')
        = Inr (toStringUtf8 deafCodecs (bytes ''--''))"
    using u [THEN conjunct2, THEN conjunct2, THEN conjunct2, THEN conjunct1] e by (rule mp)
  show ?thesis by (intro conjI d dashes_rejected c1 e c2)
qed

subsection \<open>Legacy binary salvage\<close>

lemma runs_all: "m \<in> set (runs P s) \<Longrightarrow> list_all P m \<and> set m \<subseteq> set s"
proof (induction P s rule: runs.induct)
  case (1 P)
  then show ?case by simp
next
  case (2 P c cs)
  show ?case
  proof (cases "P c")
    case True
    then consider "m = c # takeWhile P cs" | "m \<in> set (runs P (dropWhile P cs))"
      using "2.prems" by auto
    then show ?thesis
    proof cases
      case 1
      have "list_all P (takeWhile P cs)" by (simp add: list_all_iff) (meson set_takeWhileD)
      moreover have "set (takeWhile P cs) \<subseteq> set cs" by (meson set_takeWhileD subsetI)
      ultimately show ?thesis using 1 True by auto
    next
      case 2
      then have "list_all P m \<and> set m \<subseteq> set (dropWhile P cs)" using "2.IH"(1) True by blast
      moreover have "set (dropWhile P cs) \<subseteq> set cs" by (meson set_dropWhileD subsetI)
      ultimately show ?thesis by auto
    qed
  next
    case False
    then have "m \<in> set (runs P cs)" using "2.prems" by simp
    then show ?thesis using "2.IH"(2) False by auto
  qed
qed

lemma binaryText_small: "c \<in> set (binaryText buf) \<Longrightarrow> c < 256"
proof -
  assume "c \<in> set (binaryText buf)"
  then obtain b :: "8 word" where "c = unat b" by (auto simp: binaryText_def)
  moreover have "unat b < 2 ^ 8" using unsigned_less [of b] by simp
  ultimately show ?thesis by simp
qed

lemma koreanMatches_blank:
  assumes "m \<in> set (koreanMatches buf)"
  shows "list_all isWhiteSpace m"
proof -
  have a: "list_all isKoreanPatternChar m" and s: "set m \<subseteq> set (binaryText buf)"
    using assms runs_all unfolding koreanMatches_def by blast+
  have "isWhiteSpace c" if "c \<in> set m" for c
  proof -
    have "c < 256" using that s binaryText_small by blast
    moreover have "isKoreanPatternChar c" using a that by (simp add: list_all_iff)
    ultimately show ?thesis by (simp add: isKoreanPatternChar_def)
  qed
  then show ?thesis by (simp add: list_all_iff)
qed

lemma koreanKept_empty: "koreanKept buf = []"
proof -
  have "\<not> (length m > 3 \<and> length (trim m) > 0)" if "m \<in> set (koreanMatches buf)" for m
    using koreanMatches_blank [OF that] trim_empty_iff [of m] by simp
  then show ?thesis unfolding koreanKept_def by (simp add: filter_empty_conv)
qed

lemma asciiKept_props:
  "length (asciiKept buf) \<le> 10"
  "m \<in> set (asciiKept buf) \<Longrightarrow> 5 \<le> length m \<and> list_ex (\<lambda>c. isHangul c \<or> isAsciiLetter c) m"
proof -
  show "length (asciiKept buf) \<le> 10" by (simp add: asciiKept_def)
  assume "m \<in> set (asciiKept buf)"
  then have "m \<in> set (filter (\<lambda>m. length m > 4 \<and> length (trim m) > 0
                          \<and> list_ex (\<lambda>c. isHangul c \<or> isAsciiLetter c) m) (asciiMatches buf))"
    unfolding asciiKept_def by (rule in_set_takeD)
  then show "5 \<le> length m \<and> list_ex (\<lambda>c. isHangul c \<or> isAsciiLetter c) m" by simp
qed

lemma four_runs_binary:
  "binaryText (bytes ''abcd#efgh#ijkl'') = js ''abcd#efgh#ijkl''"
  by (simp add: binaryText_def bytes_def js_def)

lemma four_runs_matches:
  "asciiMatches (bytes ''abcd#efgh#ijkl'') = [js ''abcd'', js ''efgh'', js ''ijkl'']"
  unfolding asciiMatches_def four_runs_binary
  by (simp add: js_def isAsciiPatternChar_def isAsciiLetter_def isAsciiDigit_def
      isWhiteSpace_def isHangul_def)

lemma four_runs_kept: "asciiKept (bytes ''abcd#efgh#ijkl'') = []"
  unfolding asciiKept_def four_runs_matches by (simp add: js_def)

lemma four_runs_korean: "koreanMatches (bytes ''abcd#efgh#ijkl'') = []"
  unfolding koreanMatches_def four_runs_binary
  by (simp add: js_def isKoreanPatternChar_def isWhiteSpace_def)

lemma four_runs_phrases:
  "decodedPhrases asciiCodecs (bytes ''abcd#efgh#ijkl'') [''utf8'', ''euc-kr'', ''cp949'', ''utf16le''] [] = []"
  by (simp add: decodeUnder_def asciiCodecs_def phraseText_def bytes_def isHangul_def)

lemma four_runs_salvage: "salvage asciiCodecs (bytes ''abcd#efgh#ijkl'') = []"
  unfolding salvage_def four_runs_phrases binaryPatterns_def four_runs_korean four_runs_matches
    four_runs_kept
  by (simp add: js_def isWhiteSpace_def isC0C1Control_def trim_def)

text \<open>
  C8, as stated, fails on runs of exactly four characters: the buffer
  \<open>abcd#efgh#ijkl\<close> holds three runs of four letters, which the pattern matches and the
  filter \<open>match.length > 4\<close> then drops, so nothing is salvaged and the fixed message is
  emitted, although the three runs joined have 14 characters.
\<close>

theorem runs_of_four_counterexample:
  "asciiMatches (bytes ''abcd#efgh#ijkl'') = [js ''abcd'', js ''efgh'', js ''ijkl'']
   \<and> asciiKept (bytes ''abcd#efgh#ijkl'') = []
   \<and> hwpText asciiCodecs (js ''x.hwp'') (bytes ''abcd#efgh#ijkl'')
        = hwpInfoText (js ''x.hwp'') 14"
proof -
  have len: "length (bytes ''abcd#efgh#ijkl'') = 14" by (simp add: bytes_def)
  have "hwpText asciiCodecs (js ''x.hwp'') (bytes ''abcd#efgh#ijkl'')
        = hwpInfoText (js ''x.hwp'') 14"
    unfolding hwpText_def four_runs_salvage len by simp
  then show ?thesis using four_runs_matches four_runs_kept by simp
qed

text \<open>
  C8, amended. From the binary string the salvage keeps the runs of the first pattern
  only when they are longer than 3 characters and not blank (on a string of single bytes
  there is none), and of the runs of mixed ASCII and Hangul characters those longer than
  4 characters that hold a letter, capped to the first 10. If the cleaned salvaged text is
  shorter than 10 characters the emitted text is the fixed informational message with the
  file name and size; otherwise it is a fixed heading, the first 2000 characters of the
  salvage, and the "text was cut off" suffix when the salvage is longer than 2000.
\<close>

theorem hwp_salvage_and_emitted_text:
  "koreanKept buf = []
   \<and> length (asciiKept buf) \<le> 10
   \<and> (\<forall>m \<in> set (asciiKept buf). 5 \<le> length m \<and> list_ex (\<lambda>c. isHangul c \<or> isAsciiLetter c) m)
   \<and> (length (salvage lib buf) < 10 \<longrightarrow> hwpText lib name buf = hwpInfoText name (length buf))
   \<and> (10 \<le> length (salvage lib buf) \<longrightarrow>
        hwpText lib name buf =
          hwpHeading @ take 2000 (salvage lib buf)
          @ (if length (salvage lib buf) > 2000 then hwpTruncatedSuffix else []))"
  using koreanKept_empty [of buf] asciiKept_props(1) [of buf] asciiKept_props(2) [of _ buf]
  by (auto simp: hwpText_def Let_def)

lemma example_binary:
  "binaryText (bytes ''hello world example'') = js ''hello world example''"
  by (simp add: binaryText_def bytes_def js_def)

lemma example_matches:
  "asciiMatches (bytes ''hello world example'') = [js ''hello world example'']"
  unfolding asciiMatches_def example_binary
  by (simp add: js_def isAsciiPatternChar_def isAsciiLetter_def isAsciiDigit_def
      isWhiteSpace_def isHangul_def)

lemma example_kept: "asciiKept (bytes ''hello world example'') = [js ''hello world example'']"
  unfolding asciiKept_def example_matches
  by (simp add: js_def trim_def isWhiteSpace_def isHangul_def isAsciiLetter_def)

lemma example_korean:
  "koreanMatches (bytes ''hello world example'') = [js '' '', js '' '']"
  unfolding koreanMatches_def example_binary
  by (simp add: js_def isKoreanPatternChar_def isWhiteSpace_def)

lemma example_korean_kept: "koreanKept (bytes ''hello world example'') = []"
  unfolding koreanKept_def example_korean by (simp add: js_def)

lemma example_phrases:
  "decodedPhrases asciiCodecs (bytes ''hello world example'')
     [''utf8'', ''euc-kr'', ''cp949'', ''utf16le''] [] = []"
  by (simp add: decodeUnder_def asciiCodecs_def phraseText_def bytes_def isHangul_def)

lemma example_salvage:
  "salvage asciiCodecs (bytes ''hello world example'') = js ''hello world example''"
  unfolding salvage_def example_phrases binaryPatterns_def example_korean example_korean_kept
    example_matches example_kept
  by (simp add: js_def isWhiteSpace_def isC0C1Control_def trim_def)

lemma short_salvage: "salvage asciiCodecs (bytes ''hi'') = []"
  by (simp add: salvage_def decodeUnder_def asciiCodecs_def phraseText_def bytes_def
      isHangul_def binaryPatterns_def koreanMatches_def asciiMatches_def binaryText_def
      isKoreanPatternChar_def isAsciiPatternChar_def isAsciiLetter_def isAsciiDigit_def
      isWhiteSpace_def trim_def)

theorem hwp_salvage_and_emitted_text_witness:
  "js ''hello world example'' \<in> set (asciiKept (bytes ''hello world example''))
   \<and> 5 \<le> length (js ''hello world example'')
   \<and> list_ex (\<lambda>c. isHangul c \<or> isAsciiLetter c) (js ''hello world example'')
   \<and> 10 \<le> length (salvage asciiCodecs (bytes ''hello world example''))
   \<and> hwpText asciiCodecs (js ''x.hwp'') (bytes ''hello world example'')
        = hwpHeading @ take 2000 (salvage asciiCodecs (bytes ''hello world example''))
          @ (if length (salvage asciiCodecs (bytes ''hello world example'')) > 2000
             then hwpTruncatedSuffix else [])
   \<and> length (salvage asciiCodecs (bytes ''hi'')) < 10
   \<and> hwpText asciiCodecs (js ''x.hwp'') (bytes ''hi'')
        = hwpInfoText (js ''x.hwp'') (length (bytes ''hi''))"
proof -
  note t1 = hwp_salvage_and_emitted_text
    [of "bytes ''hello world example''" asciiCodecs "js ''x.hwp''"]
  note t2 = hwp_salvage_and_emitted_text [of "bytes ''hi''" asciiCodecs "js ''x.hwp''"]
  have k: "js ''hello world example'' \<in> set (asciiKept (bytes ''hello world example''))"
    by (simp add: example_kept)
  have l: "10 \<le> length (salvage asciiCodecs (bytes ''hello world example''))"
    unfolding example_salvage by (simp add: js_def)
  have s: "length (salvage asciiCodecs (bytes ''hi'')) < 10"
    unfolding short_salvage by simp
  have a: "5 \<le> length (js ''hello world example'')
      \<and> list_ex (\<lambda>c. isHangul c \<or> isAsciiLetter c) (js ''hello world example'')"
    using t1 k by blast
  have b: "hwpText asciiCodecs (js ''x.hwp'') (bytes ''hello world example'')
        = hwpHeading @ take 2000 (salvage asciiCodecs (bytes ''hello world example''))
          @ (if length (salvage asciiCodecs (bytes ''hello world example'')) > 2000
             then hwpTruncatedSuffix else [])"
    using t1 l by blast
  have c: "hwpText asciiCodecs (js ''x.hwp'') (bytes ''hi'')
        = hwpInfoText (js ''x.hwp'') (length (bytes ''hi''))"
    using t2 s by blast
  show ?thesis using k a l b s c by (intro conjI) (simp_all only:)
qed

subsection \<open>Spreadsheet serialisation\<close>












subsection \<open>PdfAssembler: page count\<close>















subsection \<open>PdfAssembler: failure containment\<close>

lemma createErrorImage_total:
  "render lib BlankImage = None \<Longrightarrow> \<exists>c. createErrorImage lib m = Inr c"
  by (simp add: createErrorImage_def split: option.splits)

lemma convertToImage_total:
  assumes "render lib BlankImage = None"
  shows "\<exists>c. convertToImage lib w = Inr c"
proof (cases "convertSwitch lib w")
  case (Inl err)
  then show ?thesis
    using createErrorImage_total [OF assms] by (simp add: convertToImage_def catch_def)
next
  case (Inr c)
  then show ?thesis by (simp add: convertToImage_def catch_def)
qed

lemma processFile_total:
  assumes "\<forall>name msg. drawErrorPage lib name msg = None"
  shows "\<exists>ps. processFile lib q fw pages = Inr ps"
proof (cases "tryFile lib q fw pages")
  case (Done ps)
  then show ?thesis by (simp add: processFile_def)
next
  case (Raised err ps)
  then show ?thesis using assms by (simp add: processFile_def)
qed

lemma convertLoop_total:
  assumes "\<forall>name msg. drawErrorPage lib name msg = None"
  shows "\<exists>pages. convertLoop lib q batch acc = Inr pages"
proof (induction batch arbitrary: acc)
  case Nil
  show ?case by simp
next
  case (Cons fw rest)
  obtain ps where "processFile lib q fw acc = Inr ps"
    using processFile_total [OF assms] by blast
  then show ?case using Cons.IH [of ps] by simp
qed

lemma raised_becomes_error_page:
  assumes "drawErrorPage lib (originalname (fst fw)) err = None"
    and "present (snd fw)" and "tryFile lib q fw acc = Raised err ps"
  shows "convertLoop lib q (fw # rest) acc
           = convertLoop lib q rest (ps @ [ErrorPage (originalname (fst fw)) err])"
  using assms by (simp add: processFile_def)

lemma broken_raises:
  "tryFile lib 80 brokenPdf [] = Raised (js ''No PDF header found'') []"
  by (simp add: tryFile_def brokenPdf_def corruptPdfFile_def missingFile_def)

text \<open>
  C6. The claim: an exception of a file's processing never aborts the batch; it is caught
  locally and becomes placeholder text or a one-page error banner, and processing goes on
  with the next file. The code on a batch of a PDF that cannot be loaded, uploaded under a
  Korean name, and a text file: the loop's \<open>catch\<close> draws the original name with a
  standard font, that drawing raises, nothing catches it inside the loop, and the batch
  ends with the failure response although the second file was waiting.
\<close>

theorem error_page_exception_aborts_batch:
  "convertLoop latinFontLibs 80 [brokenPdf, helloFile] [] = Inl (js ''WinAnsi cannot encode'')"
  by (simp add: processFile_def broken_raises)
     (simp add: brokenPdf_def corruptPdfFile_def missingFile_def latinFontLibs_def quietLibs_def)

text \<open>
  What holds of the containment. Inside \<open>convertToImage\<close> a failure is replaced by an
  error image, and the function returns whenever the minimal white image can be written.
  In the assembler loop an exception of a file's \<open>try\<close> block becomes one error page
  with the original name and the message, and the loop goes on with the next file, when
  drawing that error page does not raise; when no error page raises, the loop ends
  normally for every batch.
\<close>

theorem failures_contained:
  "((\<forall>name msg. drawErrorPage lib name msg = None) \<longrightarrow>
      (\<exists>pages. convertLoop lib q batch acc = Inr pages))
   \<and> (present (snd fw) \<and> tryFile lib q fw acc = Raised err ps
        \<and> drawErrorPage lib (originalname (fst fw)) err = None \<longrightarrow>
          convertLoop lib q (fw # rest) acc
            = convertLoop lib q rest (ps @ [ErrorPage (originalname (fst fw)) err]))
   \<and> (render lib BlankImage = None \<longrightarrow> (\<exists>c. convertToImage lib w = Inr c))"
proof (intro impI conjI)
  show "\<exists>pages. convertLoop lib q batch acc = Inr pages"
    if "\<forall>name msg. drawErrorPage lib name msg = None"
    using that by (rule convertLoop_total)
  show "convertLoop lib q (fw # rest) acc
            = convertLoop lib q rest (ps @ [ErrorPage (originalname (fst fw)) err])"
    if "present (snd fw) \<and> tryFile lib q fw acc = Raised err ps
        \<and> drawErrorPage lib (originalname (fst fw)) err = None"
    using that by (intro raised_becomes_error_page) simp_all
  show "\<exists>c. convertToImage lib w = Inr c" if "render lib BlankImage = None"
    using that by (rule convertToImage_total)
qed

theorem failures_contained_witness:
  "(\<forall>name msg. drawErrorPage quietLibs name msg = None)
   \<and> (\<exists>pages. convertLoop quietLibs 80 [brokenPdf, helloFile] [] = Inr pages)
   \<and> present (snd brokenPdf)
   \<and> tryFile quietLibs 80 brokenPdf [] = Raised (js ''No PDF header found'') []
   \<and> drawErrorPage quietLibs (originalname (fst brokenPdf)) (js ''No PDF header found'') = None
   \<and> convertLoop quietLibs 80 (brokenPdf # [helloFile]) []
        = convertLoop quietLibs 80 [helloFile]
            ([] @ [ErrorPage (originalname (fst brokenPdf)) (js ''No PDF header found'')])
   \<and> render quietLibs BlankImage = None
   \<and> (\<exists>c. convertToImage quietLibs (snd helloFile) = Inr c)"
proof -
  note fc = failures_contained [of quietLibs 80 "[brokenPdf, helloFile]" "[]" brokenPdf
      "js ''No PDF header found''" "[]" "[helloFile]" "snd helloFile"]
  have b: "\<forall>name msg. drawErrorPage quietLibs name msg = None" by (simp add: quietLibs_def)
  have p: "present (snd brokenPdf)"
    by (simp add: brokenPdf_def corruptPdfFile_def missingFile_def)
  have t: "tryFile quietLibs 80 brokenPdf [] = Raised (js ''No PDF header found'') []"
    by (rule broken_raises)
  have d: "drawErrorPage quietLibs (originalname (fst brokenPdf)) (js ''No PDF header found'') = None"
    using b by blast
  have r: "render quietLibs BlankImage = None" by (simp add: quietLibs_def)
  have c1: "\<exists>pages. convertLoop quietLibs 80 [brokenPdf, helloFile] [] = Inr pages"
    using fc [THEN conjunct1] b by (rule mp)
  have c2: "convertLoop quietLibs 80 (brokenPdf # [helloFile]) []
        = convertLoop quietLibs 80 [helloFile]
            ([] @ [ErrorPage (originalname (fst brokenPdf)) (js ''No PDF header found'')])"
    using fc [THEN conjunct2, THEN conjunct1] p t d by blast
  have c3: "\<exists>c. convertToImage quietLibs (snd helloFile) = Inr c"
    using fc [THEN conjunct2, THEN conjunct2] r by (rule mp)
  show ?thesis using b c1 p t d c2 r c3 by (intro conjI)
qed

end
